theory Spec2Isabelle
  imports Main
begin

section \<open>Python values used by the pipeline\<close>

text \<open>
  A Python \<open>str\<close> is a sequence of Unicode code points, so a string is modelled as a list
  of natural numbers (one per code point) and every literal of the source is written with
  its code points in hexadecimal.  Exceptions are values of the type \<open>exn\<close>; a function
  of the source that can raise returns \<open>exn + 'a\<close> with \<open>Inl\<close> for the raised exception.
\<close>

type_synonym codepoint = nat
type_synonym pystr = "codepoint list"

abbreviation NL :: codepoint where "NL \<equiv> 0x0A"

datatype exn =
    ZeroDivisionError
  | UnboundLocalError
  | KeyError string
  | TypeError
  | Exception pystr

text \<open>\<open>sep.join(parts)\<close>\<close>

fun str_join :: "pystr \<Rightarrow> pystr list \<Rightarrow> pystr" where
  "str_join sep [] = []"
| "str_join sep [x] = x"
| "str_join sep (x # y # ys) = x @ sep @ str_join sep (y # ys)"

text \<open>\<open>s.startswith(k)\<close> and the substring test \<open>k in s\<close>\<close>

fun starts_with :: "pystr \<Rightarrow> pystr \<Rightarrow> bool" where
  "starts_with [] s = True"
| "starts_with (k # ks) [] = False"
| "starts_with (k # ks) (c # cs) = (k = c \<and> starts_with ks cs)"

fun str_contains :: "pystr \<Rightarrow> pystr \<Rightarrow> bool" where
  "str_contains k [] = (k = [])"
| "str_contains k (c # cs) = (starts_with k (c # cs) \<or> str_contains k cs)"

text \<open>\<open>s.split('\n')\<close>: the pieces between line feeds, always at least one piece\<close>

fun split_nl :: "pystr \<Rightarrow> pystr list" where
  "split_nl [] = [[]]"
| "split_nl (c # cs) =
     (if c = NL then [] # split_nl cs
      else (case split_nl cs of [] \<Rightarrow> [[c]] | l # ls \<Rightarrow> (c # l) # ls))"

text \<open>
  \<open>s.strip()\<close> removes the leading and trailing characters for which \<open>str.isspace\<close>
  holds.
\<close>

definition is_space :: "codepoint \<Rightarrow> bool" where
  "is_space c \<longleftrightarrow>
     (0x09 \<le> c \<and> c \<le> 0x0D) \<or> (0x1C \<le> c \<and> c \<le> 0x20) \<or> c = 0x85 \<or> c = 0xA0 \<or>
     c = 0x1680 \<or> (0x2000 \<le> c \<and> c \<le> 0x200A) \<or> c = 0x2028 \<or> c = 0x2029 \<or>
     c = 0x202F \<or> c = 0x205F \<or> c = 0x3000"

definition strip :: "pystr \<Rightarrow> pystr" where
  "strip s = rev (dropWhile is_space (rev (dropWhile is_space s)))"

section \<open>Regular expressions of the \<open>re\<close> module\<close>

text \<open>
  The patterns of the source use literals, character sets, \<open>\d\<close>, \<open>.\<close>, concatenation
  and the postfix operators \<open>*\<close>, \<open>+\<close> and \<open>?\<close>.  None of them has a group reference
  or a look-around, so whether \<open>re.match\<close> or \<open>re.search\<close> finds a match depends only on
  the language of the pattern; the matcher below decides it with derivatives.

  \<open>\d\<close> on a \<open>str\<close> pattern matches the code points of Unicode category Nd; the table
  is the one of Unicode 14.0 (the ASCII digits are its first entry).  \<open>.\<close> matches every
  code point but the line feed.
\<close>

definition nd_ranges :: "(codepoint \<times> codepoint) list" where
  "nd_ranges =
    [(0x30, 0x39), (0x660, 0x669), (0x6F0, 0x6F9), (0x7C0, 0x7C9), (0x966, 0x96F),
     (0x9E6, 0x9EF), (0xA66, 0xA6F), (0xAE6, 0xAEF), (0xB66, 0xB6F), (0xBE6, 0xBEF),
     (0xC66, 0xC6F), (0xCE6, 0xCEF), (0xD66, 0xD6F), (0xDE6, 0xDEF), (0xE50, 0xE59),
     (0xED0, 0xED9), (0xF20, 0xF29), (0x1040, 0x1049), (0x1090, 0x1099), (0x17E0, 0x17E9),
     (0x1810, 0x1819), (0x1946, 0x194F), (0x19D0, 0x19D9), (0x1A80, 0x1A89),
     (0x1A90, 0x1A99), (0x1B50, 0x1B59), (0x1BB0, 0x1BB9), (0x1C40, 0x1C49),
     (0x1C50, 0x1C59), (0xA620, 0xA629), (0xA8D0, 0xA8D9), (0xA900, 0xA909),
     (0xA9D0, 0xA9D9), (0xA9F0, 0xA9F9), (0xAA50, 0xAA59), (0xABF0, 0xABF9),
     (0xFF10, 0xFF19), (0x104A0, 0x104A9), (0x10D30, 0x10D39), (0x11066, 0x1106F),
     (0x110F0, 0x110F9), (0x11136, 0x1113F), (0x111D0, 0x111D9), (0x112F0, 0x112F9),
     (0x11450, 0x11459), (0x114D0, 0x114D9), (0x11650, 0x11659), (0x116C0, 0x116C9),
     (0x11730, 0x11739), (0x118E0, 0x118E9), (0x11950, 0x11959), (0x11C50, 0x11C59),
     (0x11D50, 0x11D59), (0x11DA0, 0x11DA9), (0x16A60, 0x16A69), (0x16AC0, 0x16AC9),
     (0x16B50, 0x16B59), (0x1D7CE, 0x1D7FF), (0x1E140, 0x1E149), (0x1E2F0, 0x1E2F9),
     (0x1E950, 0x1E959), (0x1FBF0, 0x1FBF9)]"

definition is_decimal :: "codepoint \<Rightarrow> bool" where
  "is_decimal c = list_ex (\<lambda>(lo, hi). lo \<le> c \<and> c \<le> hi) nd_ranges"

datatype regex =
    Never
  | Eps
  | Chr codepoint
  | Cls "codepoint list"
  | Digit
  | Dot
  | Cat regex regex
  | Alt regex regex
  | Star regex
  | Plus regex
  | Opt regex

text \<open>A literal string as a pattern\<close>

fun lit :: "pystr \<Rightarrow> regex" where
  "lit [] = Eps"
| "lit [c] = Chr c"
| "lit (c # d # ds) = Cat (Chr c) (lit (d # ds))"

fun nullable :: "regex \<Rightarrow> bool" where
  "nullable Never = False"
| "nullable Eps = True"
| "nullable (Chr a) = False"
| "nullable (Cls as) = False"
| "nullable Digit = False"
| "nullable Dot = False"
| "nullable (Cat r s) = (nullable r \<and> nullable s)"
| "nullable (Alt r s) = (nullable r \<or> nullable s)"
| "nullable (Star r) = True"
| "nullable (Plus r) = nullable r"
| "nullable (Opt r) = True"

fun deriv :: "codepoint \<Rightarrow> regex \<Rightarrow> regex" where
  "deriv c Never = Never"
| "deriv c Eps = Never"
| "deriv c (Chr a) = (if c = a then Eps else Never)"
| "deriv c (Cls as) = (if c \<in> set as then Eps else Never)"
| "deriv c Digit = (if is_decimal c then Eps else Never)"
| "deriv c Dot = (if c = NL then Never else Eps)"
| "deriv c (Cat r s) =
     (if nullable r then Alt (Cat (deriv c r) s) (deriv c s) else Cat (deriv c r) s)"
| "deriv c (Alt r s) = Alt (deriv c r) (deriv c s)"
| "deriv c (Star r) = Cat (deriv c r) (Star r)"
| "deriv c (Plus r) = Cat (deriv c r) (Star r)"
| "deriv c (Opt r) = deriv c r"

text \<open>The whole string is a word of the pattern (\<open>re.fullmatch\<close>)\<close>

fun re_fullmatch :: "regex \<Rightarrow> pystr \<Rightarrow> bool" where
  "re_fullmatch r [] = nullable r"
| "re_fullmatch r (c # cs) = re_fullmatch (deriv c r) cs"

text \<open>
  \<open>re.match(p, s)\<close> is truthy when some prefix of \<open>s\<close> is a word of \<open>p\<close>.  A leading
  \<open>^\<close> of a pattern adds nothing to \<open>re.match\<close>, which starts at position 0, so it is
  left out of the patterns below.
\<close>

fun re_match :: "regex \<Rightarrow> pystr \<Rightarrow> bool" where
  "re_match r [] = nullable r"
| "re_match r (c # cs) = (nullable r \<or> re_match (deriv c r) cs)"

text \<open>\<open>re.search(p, s)\<close> is truthy when \<open>p\<close> matches at some position of \<open>s\<close>\<close>

fun re_search :: "regex \<Rightarrow> pystr \<Rightarrow> bool" where
  "re_search r [] = nullable r"
| "re_search r (c # cs) = (re_match r (c # cs) \<or> re_search r cs)"

text \<open>
  The words of a pattern, as the documentation of \<open>re\<close> gives them; the matcher is
  shown below to decide exactly these.
\<close>

definition lang_conc :: "pystr set \<Rightarrow> pystr set \<Rightarrow> pystr set" where
  "lang_conc A B = {u @ v | u v. u \<in> A \<and> v \<in> B}"

inductive_set lang_star :: "pystr set \<Rightarrow> pystr set" for A :: "pystr set" where
  empty_word: "[] \<in> lang_star A"
| one_more: "u \<in> A \<Longrightarrow> v \<in> lang_star A \<Longrightarrow> u @ v \<in> lang_star A"

fun lang :: "regex \<Rightarrow> pystr set" where
  "lang Never = {}"
| "lang Eps = {[]}"
| "lang (Chr a) = {[a]}"
| "lang (Cls as) = {[c] | c. c \<in> set as}"
| "lang Digit = {[c] | c. is_decimal c}"
| "lang Dot = {[c] | c. c \<noteq> NL}"
| "lang (Cat r s) = lang_conc (lang r) (lang s)"
| "lang (Alt r s) = lang r \<union> lang s"
| "lang (Star r) = lang_star (lang r)"
| "lang (Plus r) = lang_conc (lang r) (lang_star (lang r))"
| "lang (Opt r) = insert [] (lang r)"

section \<open>ContractParser: splitting paragraphs into clauses\<close>

text \<open>
  \<open>load_contract\<close> yields dictionaries \<open>{'page_content', 'metadata'}\<close> whose metadata has
  the keys \<open>source\<close>, \<open>paragraph_id\<close> and \<open>type\<close>; \<open>split_into_clauses\<close> yields
  dictionaries of the same shape whose metadata is \<open>{**metadata, 'clause_title', 'type',
  'sub_clause_count'}\<close>.
\<close>

record doc_meta =
  source :: pystr
  paragraph_id :: nat
  mtype :: string

record clause_meta = doc_meta +
  clause_title :: pystr
  sub_clause_count :: nat

record 'm item =
  page_content :: pystr
  metadata :: 'm

type_synonym document = "doc_meta item"
type_synonym clause = "clause_meta item"

text \<open>
  \<open>main_clause_patterns\<close>:
  \<^item> \<open>^\<close>U+7B2C\<open>[\<close>U+4E00 U+4E8C U+4E09 U+56DB U+4E94 U+516D U+4E03 U+516B U+4E5D U+5341
    U+96F6\<open>]+\<close>U+6761 (ordinal heading written with Chinese numerals),
  \<^item> \<open>^\<close>U+7B2C\<open>\d+\<close>U+6761 (ordinal heading written with digits),
  \<^item> \<open>^ARTICLE\<close>, \<open>^SECTION\<close>.
\<close>

definition main_clause_patterns :: "regex list" where
  "main_clause_patterns =
    [Cat (Chr 0x7B2C)
       (Cat (Plus (Cls [0x4E00, 0x4E8C, 0x4E09, 0x56DB, 0x4E94, 0x516D, 0x4E03, 0x516B,
                        0x4E5D, 0x5341, 0x96F6]))
            (Chr 0x6761)),
     Cat (Chr 0x7B2C) (Cat (Plus Digit) (Chr 0x6761)),
     lit [0x41, 0x52, 0x54, 0x49, 0x43, 0x4C, 0x45],
     lit [0x53, 0x45, 0x43, 0x54, 0x49, 0x4F, 0x4E]]"

text \<open>
  \<open>sub_clause_patterns\<close>: \<open>^\d+\.\d+\<close>, \<open>^[\<close>U+4E00 ... U+5341\<open>]\<close>U+3001 and
  \<open>^\d+\<close>U+3001 (U+3001 is the ideographic comma).
\<close>

definition sub_clause_patterns :: "regex list" where
  "sub_clause_patterns =
    [Cat (Plus Digit) (Cat (Chr 0x2E) (Plus Digit)),
     Cat (Cls [0x4E00, 0x4E8C, 0x4E09, 0x56DB, 0x4E94, 0x516D, 0x4E03, 0x516B, 0x4E5D,
               0x5341])
         (Chr 0x3001),
     Cat (Plus Digit) (Chr 0x3001)]"

definition is_main_clause :: "pystr \<Rightarrow> bool" where
  "is_main_clause text = list_ex (\<lambda>pattern. re_match pattern (strip text)) main_clause_patterns"

definition is_sub_clause :: "pystr \<Rightarrow> bool" where
  "is_sub_clause text = list_ex (\<lambda>pattern. re_match pattern (strip text)) sub_clause_patterns"

definition combine_clause_content :: "pystr list \<Rightarrow> pystr list \<Rightarrow> pystr" where
  "combine_clause_content main_clause sub_clauses =
     str_join [NL]
       ((if main_clause \<noteq> [] then main_clause else []) @
        (if sub_clauses \<noteq> [] then sub_clauses else []))"

text \<open>The local variables of \<open>split_into_clauses\<close> that live across loop iterations\<close>

record seg_state =
  clauses :: "clause list"
  current_main_clause :: "pystr list"
  current_main_title :: pystr
  current_sub_clauses :: "pystr list"

text \<open>U+5408 U+540C U+524D U+8A00, the title of the text before the first heading\<close>

definition preamble_title :: pystr where
  "preamble_title = [0x5408, 0x540C, 0x524D, 0x8A00]"

definition seg_init :: seg_state where
  "seg_init =
     \<lparr>clauses = [], current_main_clause = [], current_main_title = preamble_title,
      current_sub_clauses = []\<rparr>"

text \<open>The clause dictionary appended by both flushes; \<open>md\<close> is the variable \<open>metadata\<close>\<close>

definition flush_clause :: "seg_state \<Rightarrow> doc_meta \<Rightarrow> clause" where
  "flush_clause st md =
     \<lparr>page_content =
        combine_clause_content (current_main_clause st) (current_sub_clauses st),
      metadata =
        \<lparr>source = source md, paragraph_id = paragraph_id md, mtype = ''main_clause'',
         clause_title = current_main_title st,
         sub_clause_count = length (current_sub_clauses st)\<rparr>\<rparr>"

text \<open>One iteration of the loop over \<open>documents\<close>\<close>

definition seg_step :: "seg_state \<Rightarrow> document \<Rightarrow> seg_state" where
  "seg_step st doc =
     (let text = page_content doc; md = metadata doc in
      if is_main_clause text then
        \<lparr>clauses =
           (if current_main_clause st \<noteq> [] \<or> current_sub_clauses st \<noteq> []
            then clauses st @ [flush_clause st md] else clauses st),
         current_main_clause = [text],
         current_main_title = text,
         current_sub_clauses = []\<rparr>
      else if is_sub_clause text then
        st\<lparr>current_sub_clauses := current_sub_clauses st @ [text]\<rparr>
      else if current_sub_clauses st \<noteq> [] then
        st\<lparr>current_sub_clauses :=
             butlast (current_sub_clauses st) @ [last (current_sub_clauses st) @ NL # text]\<rparr>
      else
        st\<lparr>current_main_clause := current_main_clause st @ [text]\<rparr>)"

text \<open>
  After the loop the variable \<open>metadata\<close> still holds the metadata of the last document;
  it is unbound when there was no document, and reading it then would raise.
\<close>

definition split_into_clauses :: "document list \<Rightarrow> exn + clause list" where
  "split_into_clauses documents =
     (let st = foldl seg_step seg_init documents in
      if current_main_clause st \<noteq> [] \<or> current_sub_clauses st \<noteq> [] then
        (case documents of
           [] \<Rightarrow> Inl UnboundLocalError
         | _ # _ \<Rightarrow> Inr (clauses st @ [flush_clause st (metadata (last documents))]))
      else Inr (clauses st))"

section \<open>WorkingContractAI: risk rules, detector and scorer\<close>

text \<open>
  A finding is the dictionary \<open>{'type', 'level', 'description', 'position', 'category'}\<close>
  appended by \<open>_detect_detailed_risks\<close>; its \<open>level\<close> only ever holds one of the
  two literals \<open>'medium'\<close> and \<open>'high'\<close>.
\<close>

datatype severity = Medium | High

record risk =
  rtype :: pystr
  level :: severity
  description :: pystr
  position :: pystr
  category :: string

record rule =
  rule_name :: pystr
  rule_keywords :: "pystr list"
  rule_patterns :: "(regex \<times> pystr) list"

text \<open>
  \<open>_load_risk_rules\<close>.  Every string is given by its code points; the patterns are, in
  the order of the source,
  \<^item> financial: U+5269 U+4F59 U+6B3E U+9879\<open>.*\<close>U+9A8C U+6536 U+5408 U+683C U+540E U+652F U+4ED8,
    U+652F U+4ED8\<open>.*\<close>U+603B U+4EF7\<open>.*50%\<close>, U+8FDD U+7EA6 U+91D1\<open>.*\d+\.?\d*%\<close>;
  \<^item> delivery: U+6309 U+7167\<open>.*\<close>U+6807 U+51C6 U+9A8C U+6536, U+5C3D U+5FEB U+5904 U+7406,
    U+884C U+4E1A U+901A U+7528 U+6807 U+51C6;
  \<^item> legal: U+4E59 U+65B9 U+627F U+62C5 U+5168 U+90E8 U+8D23 U+4EFB,
    U+7532 U+65B9 U+6240 U+5728 U+5730\<open>.*\<close>U+8BC9 U+8BBC, U+53CB U+597D U+534F U+5546 U+89E3 U+51B3.
\<close>

definition financial_rule :: rule where
  "financial_rule =
     \<lparr>rule_name = [0x8D22, 0x52A1, 0x98CE, 0x9669],
      rule_keywords =
        [[0x652F, 0x4ED8], [0x4ED8, 0x6B3E], [0x8FDD, 0x7EA6, 0x91D1], [0x4EF7, 0x683C],
         [0x91D1, 0x989D], [0x8D54, 0x507F], [0x5229, 0x606F], [0x9884, 0x4ED8, 0x6B3E],
         [0x5C3E, 0x6B3E]],
      rule_patterns =
        [(Cat (lit [0x5269, 0x4F59, 0x6B3E, 0x9879])
            (Cat (Star Dot) (lit [0x9A8C, 0x6536, 0x5408, 0x683C, 0x540E, 0x652F, 0x4ED8])),
          [0x4ED8, 0x6B3E, 0x6761, 0x4EF6, 0x6A21, 0x7CCA]),
         (Cat (lit [0x652F, 0x4ED8])
            (Cat (Star Dot)
               (Cat (lit [0x603B, 0x4EF7]) (Cat (Star Dot) (lit [0x35, 0x30, 0x25])))),
          [0x9884, 0x4ED8, 0x6B3E, 0x6BD4, 0x4F8B, 0x8F83, 0x9AD8]),
         (Cat (lit [0x8FDD, 0x7EA6, 0x91D1])
            (Cat (Star Dot)
               (Cat (Plus Digit) (Cat (Opt (Chr 0x2E)) (Cat (Star Digit) (Chr 0x25))))),
          [0x8FDD, 0x7EA6, 0x91D1, 0x6BD4, 0x4F8B, 0x9700, 0x786E, 0x8BA4])]\<rparr>"

definition delivery_rule :: rule where
  "delivery_rule =
     \<lparr>rule_name = [0x4EA4, 0x4ED8, 0x98CE, 0x9669],
      rule_keywords =
        [[0x4EA4, 0x4ED8], [0x9A8C, 0x6536], [0x6807, 0x51C6], [0x65F6, 0x95F4],
         [0x671F, 0x9650], [0x5EF6, 0x8FDF], [0x5C3D, 0x5FEB],
         [0x9A8C, 0x6536, 0x6807, 0x51C6]],
      rule_patterns =
        [(Cat (lit [0x6309, 0x7167]) (Cat (Star Dot) (lit [0x6807, 0x51C6, 0x9A8C, 0x6536])),
          [0x9A8C, 0x6536, 0x6807, 0x51C6, 0x6A21, 0x7CCA]),
         (lit [0x5C3D, 0x5FEB, 0x5904, 0x7406],
          [0x54CD, 0x5E94, 0x65F6, 0x95F4, 0x4E0D, 0x660E, 0x786E]),
         (lit [0x884C, 0x4E1A, 0x901A, 0x7528, 0x6807, 0x51C6],
          [0x6807, 0x51C6, 0x5B9A, 0x4E49, 0x4E0D, 0x6E05])]\<rparr>"

definition legal_rule :: rule where
  "legal_rule =
     \<lparr>rule_name = [0x6CD5, 0x5F8B, 0x98CE, 0x9669],
      rule_keywords =
        [[0x4E89, 0x8BAE], [0x8BC9, 0x8BBC], [0x7BA1, 0x8F96], [0x77E5, 0x8BC6, 0x4EA7, 0x6743],
         [0x4FDD, 0x5BC6], [0x8D23, 0x4EFB], [0x7EA0, 0x7EB7]],
      rule_patterns =
        [(lit [0x4E59, 0x65B9, 0x627F, 0x62C5, 0x5168, 0x90E8, 0x8D23, 0x4EFB],
          [0x8D23, 0x4EFB, 0x5206, 0x914D, 0x4E0D, 0x5747]),
         (Cat (lit [0x7532, 0x65B9, 0x6240, 0x5728, 0x5730])
            (Cat (Star Dot) (lit [0x8BC9, 0x8BBC])),
          [0x7BA1, 0x8F96, 0x5730, 0x5355, 0x65B9, 0x6709, 0x5229]),
         (lit [0x53CB, 0x597D, 0x534F, 0x5546, 0x89E3, 0x51B3],
          [0x89E3, 0x51B3, 0x65B9, 0x5F0F, 0x6A21, 0x7CCA])]\<rparr>"

text \<open>The dictionary \<open>risk_rules\<close>, in insertion order, which is the order of \<open>.items()\<close>\<close>

definition risk_rules :: "(string \<times> rule) list" where
  "risk_rules =
     [(''financial_risk'', financial_rule),
      (''delivery_risk'', delivery_rule),
      (''legal_risk'', legal_rule)]"

text \<open>\<open>str(n)\<close> for a natural number\<close>

fun str_of_nat :: "nat \<Rightarrow> pystr" where
  "str_of_nat n = (if n < 10 then [0x30 + n] else str_of_nat (n div 10) @ [0x30 + n mod 10])"

declare str_of_nat.simps [simp del]

text \<open>U+6761 U+6B3E U+5185 U+5BB9, the position given when no line can be named\<close>

definition generic_position :: pystr where
  "generic_position = [0x6761, 0x6B3E, 0x5185, 0x5BB9]"

text \<open>
  The loop of \<open>_find_keyword_position\<close> over \<open>enumerate(lines)\<close>; the answer for line
  \<open>i\<close> is U+7B2C, \<open>str(i+1)\<close>, U+884C.
\<close>

fun keyword_line :: "pystr \<Rightarrow> nat \<Rightarrow> pystr list \<Rightarrow> pystr" where
  "keyword_line keyword i [] = generic_position"
| "keyword_line keyword i (line # lines) =
     (if str_contains keyword line then [0x7B2C] @ str_of_nat (i + 1) @ [0x884C]
      else keyword_line keyword (i + 1) lines)"

definition find_keyword_position :: "pystr \<Rightarrow> pystr \<Rightarrow> pystr" where
  "find_keyword_position content keyword = keyword_line keyword 0 (split_nl content)"

text \<open>U+53D1 U+73B0 U+5173 U+952E U+8BCD\<open>: \<close>, the prefix of a keyword finding's description\<close>

definition keyword_prefix :: pystr where
  "keyword_prefix = [0x53D1, 0x73B0, 0x5173, 0x952E, 0x8BCD, 0x3A, 0x20]"

definition keyword_risks :: "string \<Rightarrow> rule \<Rightarrow> pystr \<Rightarrow> risk list" where
  "keyword_risks risk_id rl content =
     map (\<lambda>keyword.
            \<lparr>rtype = rule_name rl, level = Medium, description = keyword_prefix @ keyword,
             position = find_keyword_position content keyword, category = risk_id\<rparr>)
       (filter (\<lambda>keyword. str_contains keyword content) (rule_keywords rl))"

definition pattern_risks :: "string \<Rightarrow> rule \<Rightarrow> pystr \<Rightarrow> risk list" where
  "pattern_risks risk_id rl content =
     map (\<lambda>(pattern, descr).
            \<lparr>rtype = rule_name rl, level = High, description = descr,
             position = generic_position, category = risk_id\<rparr>)
       (filter (\<lambda>(pattern, descr). re_search pattern content) (rule_patterns rl))"

definition detect_detailed_risks :: "pystr \<Rightarrow> risk list" where
  "detect_detailed_risks content =
     concat (map (\<lambda>(risk_id, rl).
                    keyword_risks risk_id rl content @ pattern_risks risk_id rl content)
               risk_rules)"

definition calculate_risk_score :: "risk list \<Rightarrow> int" where
  "calculate_risk_score risks =
     (if risks = [] then 85
      else
        let high_risks = int (length (filter (\<lambda>r. level r = High) risks));
            medium_risks = int (length (filter (\<lambda>r. level r = Medium) risks));
            base_score = 85;
            score_reduction = high_risks * 20 + medium_risks * 10
        in max 30 (base_score - score_reduction))"

text \<open>The three tier names: U+4F4E, U+4E2D and U+9AD8, each followed by U+98CE U+9669\<close>

definition low_risk :: pystr where "low_risk = [0x4F4E, 0x98CE, 0x9669]"
definition medium_risk :: pystr where "medium_risk = [0x4E2D, 0x98CE, 0x9669]"
definition high_risk :: pystr where "high_risk = [0x9AD8, 0x98CE, 0x9669]"

definition get_risk_level :: "int \<Rightarrow> pystr" where
  "get_risk_level score =
     (if score \<ge> 80 then low_risk else if score \<ge> 60 then medium_risk else high_risk)"

text \<open>U+5F85 U+5BA1 U+6838, the review status of a clause with findings\<close>

definition pending_review :: pystr where
  "pending_review = [0x5F85, 0x5BA1, 0x6838]"

record basic_analysis =
  risks :: "risk list"
  risk_score :: int
  review_status :: pystr

definition basic_risk_analysis :: "clause \<Rightarrow> basic_analysis" where
  "basic_risk_analysis clause =
     (let content = page_content clause;
          found = detect_detailed_risks content;
          score = calculate_risk_score found
      in \<lparr>risks = found, risk_score = score,
          review_status = (if found \<noteq> [] then pending_review else low_risk)\<rparr>)"

section \<open>Dictionaries\<close>

text \<open>
  The analysed clause is built by dictionary merges (\<open>{**a, **b}\<close>), so it is a finite
  map from keys to values; \<open>m ++ n\<close> is the merge in which the entries of \<open>n\<close> win.
  The values are those the pipeline stores (integers, strings, lists, the findings, the
  clause metadata) and those a parsed JSON reply can add.
\<close>

datatype pyval =
    VInt int
  | VStr pystr
  | VList "pyval list"
  | VRisks "risk list"
  | VMeta clause_meta

type_synonym pydict = "string \<rightharpoonup> pyval"

definition clause_dict :: "clause \<Rightarrow> pydict" where
  "clause_dict clause =
     [''page_content'' \<mapsto> VStr (page_content clause), ''metadata'' \<mapsto> VMeta (metadata clause)]"

definition basic_dict :: "basic_analysis \<Rightarrow> pydict" where
  "basic_dict b =
     [''risks'' \<mapsto> VRisks (risks b), ''risk_score'' \<mapsto> VInt (risk_score b),
      ''review_status'' \<mapsto> VStr (review_status b)]"

text \<open>
  The call \<open>llm_advisor.analyze_clause_with_llm(content, title, risks)\<close> either raises or
  returns a dictionary.
\<close>

type_synonym advisor = "pystr \<Rightarrow> pystr \<Rightarrow> risk list \<Rightarrow> exn + pydict"

section \<open>FixedLangChainContractAdvisor\<close>

text \<open>
  What the advisor does not compute itself is a parameter of its definition:
  \<^item> \<open>chain_reply\<close>: the reply of the remote model to the prompt built from the clause
    (\<open>chain.invoke\<close>); the call raises when the model cannot be reached;
  \<^item> \<open>json_object\<close>: the JSON object that \<open>_parse_llm_response\<close> finds in a reply and
    decodes with \<open>json.loads\<close>: none found, an exception, or the decoded object;
  \<^item> \<open>extract_from_text\<close>: the text heuristics of \<open>_extract_from_text\<close>;
  \<^item> \<open>set_order\<close>: the order in which \<open>list(set(xs))\<close> enumerates the distinct strings of
    \<open>xs\<close>, which Python leaves open.
\<close>

record llm_env =
  chain_reply :: "pystr \<Rightarrow> pystr \<Rightarrow> risk list \<Rightarrow> exn + pystr"
  json_object :: "pystr \<Rightarrow> exn + pydict option"
  extract_from_text :: "pystr \<Rightarrow> pydict"
  set_order :: "pystr list \<Rightarrow> pystr list"

definition required_fields :: "string list" where
  "required_fields =
     [''risk_analysis'', ''specific_risks'', ''modification_suggestions'', ''legal_basis'',
      ''negotiation_tips'', ''risk_level'']"

text \<open>
  \<open>_parse_llm_response\<close>: a decoded object that has the six required fields is returned
  as it is, with every other key it holds; in all other cases the text heuristics answer.
\<close>

definition parse_llm_response :: "llm_env \<Rightarrow> pystr \<Rightarrow> pydict" where
  "parse_llm_response env response =
     (let cleaned_response = strip response in
      case json_object env cleaned_response of
        Inr (Some result) \<Rightarrow>
          if list_all (\<lambda>field. result field \<noteq> None) required_fields then result
          else extract_from_text env cleaned_response
      | Inr None \<Rightarrow> extract_from_text env cleaned_response
      | Inl e \<Rightarrow> extract_from_text env response)"

text \<open>
  \<open>_generate_fallback_suggestions\<close>: the first finding whose description holds one of the
  trigger words decides the single suggestion.  The trigger words are U+4ED8 U+6B3E,
  U+652F U+4ED8, U+91D1 U+989D; then U+9A8C U+6536, U+6807 U+51C6, U+4EA4 U+4ED8; then
  U+8FDD U+7EA6; then U+7BA1 U+8F96.
\<close>

definition suggest_payment :: pystr where
  "suggest_payment =
     [0x5EFA, 0x8BAE, 0x660E, 0x786E, 0x4ED8, 0x6B3E, 0x65F6, 0x95F4, 0x548C, 0x6761,
      0x4EF6, 0xFF1A, 0x27, 0x9A8C, 0x6536, 0x5408, 0x683C, 0x540E, 0x31, 0x35, 0x4E2A,
      0x5DE5, 0x4F5C, 0x65E5, 0x5185, 0x652F, 0x4ED8, 0x5269, 0x4F59, 0x6B3E, 0x9879,
      0x27]"

definition suggest_acceptance :: pystr where
  "suggest_acceptance =
     [0x5EFA, 0x8BAE, 0x5177, 0x4F53, 0x5316, 0x9A8C, 0x6536, 0x6807, 0x51C6, 0xFF1A,
      0x53C2, 0x7167, 0x5177, 0x4F53, 0x7684, 0x6280, 0x672F, 0x89C4, 0x683C, 0x548C,
      0x9A8C, 0x6536, 0x20, 0x63, 0x68, 0x65, 0x63, 0x6B, 0x6C, 0x69, 0x73, 0x74]"

definition suggest_penalty :: pystr where
  "suggest_penalty =
     [0x5EFA, 0x8BAE, 0x660E, 0x786E, 0x8FDD, 0x7EA6, 0x91D1, 0x8BA1, 0x7B97, 0x65B9,
      0x5F0F, 0x548C, 0x4E0A, 0x9650]"

definition suggest_court :: pystr where
  "suggest_court =
     [0x5EFA, 0x8BAE, 0x9009, 0x62E9, 0x4E2D, 0x7ACB, 0x7684, 0x7BA1, 0x8F96, 0x6CD5,
      0x9662]"

definition suggest_review :: pystr where
  "suggest_review =
     [0x5EFA, 0x8BAE, 0x7531, 0x4E13, 0x4E1A, 0x6CD5, 0x52A1, 0x4EBA, 0x5458, 0x5BA1,
      0x67E5, 0x6B64, 0x6761, 0x6B3E]"

fun first_suggestion :: "risk list \<Rightarrow> pystr option" where
  "first_suggestion [] = None"
| "first_suggestion (r # rs) =
     (if list_ex (\<lambda>word. str_contains word (description r))
           [[0x4ED8, 0x6B3E], [0x652F, 0x4ED8], [0x91D1, 0x989D]]
      then Some suggest_payment
      else if list_ex (\<lambda>word. str_contains word (description r))
           [[0x9A8C, 0x6536], [0x6807, 0x51C6], [0x4EA4, 0x4ED8]]
      then Some suggest_acceptance
      else if str_contains [0x8FDD, 0x7EA6] (description r) then Some suggest_penalty
      else if str_contains [0x7BA1, 0x8F96] (description r) then Some suggest_court
      else first_suggestion rs)"

definition generate_fallback_suggestions :: "risk list \<Rightarrow> pystr list" where
  "generate_fallback_suggestions found =
     (case first_suggestion found of Some s \<Rightarrow> [s] | None \<Rightarrow> [suggest_review])"

text \<open>
  \<open>_fallback_analysis\<close>.  The sentence is U+8BC6 U+522B U+5230, the number of findings,
  U+4E2A U+98CE U+9669 U+70B9 U+FF0C U+6D89 U+53CA U+FF1A and the distinct type names joined
  by \<open>', '\<close>; the two fixed texts are U+57FA U+4E8E U+6807 U+51C6 U+5408 U+540C U+5BA1 U+67E5
  U+89C4 U+8303 and U+5EFA U+8BAE U+660E U+786E U+5173 U+952E U+5546 U+4E1A U+6761 U+6B3E.
\<close>

definition fallback_analysis :: "llm_env \<Rightarrow> pystr \<Rightarrow> risk list \<Rightarrow> pydict" where
  "fallback_analysis env clause_content found =
     (let risk_types = set_order env (map rtype found) in
      [''risk_analysis'' \<mapsto>
         VStr ([0x8BC6, 0x522B, 0x5230] @ str_of_nat (length found) @
               [0x4E2A, 0x98CE, 0x9669, 0x70B9, 0xFF0C, 0x6D89, 0x53CA, 0xFF1A] @
               str_join [0x2C, 0x20] risk_types),
       ''specific_risks'' \<mapsto> VList (map VStr (take 3 (map description found))),
       ''modification_suggestions'' \<mapsto> VList (map VStr (generate_fallback_suggestions found)),
       ''legal_basis'' \<mapsto>
         VStr [0x57FA, 0x4E8E, 0x6807, 0x51C6, 0x5408, 0x540C, 0x5BA1, 0x67E5, 0x89C4, 0x8303],
       ''negotiation_tips'' \<mapsto>
         VStr [0x5EFA, 0x8BAE, 0x660E, 0x786E, 0x5173, 0x952E, 0x5546, 0x4E1A, 0x6761, 0x6B3E],
       ''risk_level'' \<mapsto>
         VStr (if length found > 3 then high_risk
               else if found \<noteq> [] then medium_risk else low_risk)])"

text \<open>
  \<open>analyze_clause_with_llm\<close>: whatever the \<open>try\<close> block raises is caught and answered
  with the fallback analysis, so the call itself returns a dictionary.
\<close>

definition analyze_clause_with_llm :: "llm_env \<Rightarrow> advisor" where
  "analyze_clause_with_llm env clause_content title found =
     (case chain_reply env clause_content title found of
        Inr response \<Rightarrow> Inr (parse_llm_response env response)
      | Inl e \<Rightarrow> Inr (fallback_analysis env clause_content found))"

section \<open>WorkingContractAI: clause analysis and report\<close>

text \<open>The body of the loop of \<open>analyze_contract\<close>: the dictionary appended for one clause\<close>

definition analyze_clause :: "bool \<Rightarrow> advisor \<Rightarrow> bool \<Rightarrow> clause \<Rightarrow> pydict" where
  "analyze_clause use_llm llm_advisor use_llm_for_high_risk clause =
     (let title = clause_title (metadata clause);
          basic = basic_risk_analysis clause;
          clause_analysis =
            (if use_llm \<and> (\<not> use_llm_for_high_risk \<or> risk_score basic < 70) then
               (case llm_advisor (page_content clause) title (risks basic) of
                  Inr llm_analysis \<Rightarrow> basic_dict basic ++ llm_analysis
                | Inl e \<Rightarrow> basic_dict basic)
             else basic_dict basic)
      in clause_dict clause ++ clause_analysis)"

text \<open>\<open>len(clause['risks'])\<close> and \<open>c['risk_score']\<close> read as a number\<close>

definition risks_len :: "pydict \<Rightarrow> exn + nat" where
  "risks_len c =
     (case c ''risks'' of
        None \<Rightarrow> Inl (KeyError ''risks'')
      | Some (VRisks rs) \<Rightarrow> Inr (length rs)
      | Some (VList vs) \<Rightarrow> Inr (length vs)
      | Some (VStr s) \<Rightarrow> Inr (length s)
      | Some (VMeta m) \<Rightarrow> Inr 5
      | Some (VInt n) \<Rightarrow> Inl TypeError)"

definition score_of :: "pydict \<Rightarrow> exn + int" where
  "score_of c =
     (case c ''risk_score'' of
        None \<Rightarrow> Inl (KeyError ''risk_score'')
      | Some (VInt n) \<Rightarrow> Inr n
      | Some _ \<Rightarrow> Inl TypeError)"

text \<open>Evaluating a generator over the clauses: the first exception ends it\<close>

fun traverse :: "('a \<Rightarrow> exn + 'b) \<Rightarrow> 'a list \<Rightarrow> exn + 'b list" where
  "traverse f [] = Inr []"
| "traverse f (x # xs) =
     (case f x of
        Inl e \<Rightarrow> Inl e
      | Inr y \<Rightarrow> (case traverse f xs of Inl e \<Rightarrow> Inl e | Inr ys \<Rightarrow> Inr (y # ys)))"

text \<open>The three sentences of \<open>_generate_summary\<close>\<close>

definition summary_none :: pystr where
  "summary_none =
     [0x5408, 0x540C, 0x6574, 0x4F53, 0x98CE, 0x9669, 0x53EF, 0x63A7, 0xFF0C, 0x5EFA, 0x8BAE,
      0x5173, 0x6CE8, 0x4E2A, 0x522B, 0x4E2D, 0x98CE, 0x9669, 0x6761, 0x6B3E, 0x3002]"

definition summary_few :: pystr where
  "summary_few =
     [0x5408, 0x540C, 0x5B58, 0x5728, 0x5C11, 0x91CF, 0x9AD8, 0x98CE, 0x9669, 0x6761, 0x6B3E,
      0xFF0C, 0x5EFA, 0x8BAE, 0x91CD, 0x70B9, 0x5BA1, 0x67E5, 0x4ED8, 0x6B3E, 0x6761, 0x4EF6,
      0x3001, 0x8FDD, 0x7EA6, 0x8D23, 0x4EFB, 0x7B49, 0x6761, 0x6B3E, 0x3002]"

definition summary_many :: pystr where
  "summary_many =
     [0x5408, 0x540C, 0x5B58, 0x5728, 0x591A, 0x5904, 0x9AD8, 0x98CE, 0x9669, 0x6761, 0x6B3E,
      0xFF0C, 0x5EFA, 0x8BAE, 0x6CD5, 0x52A1, 0x90E8, 0x95E8, 0x91CD, 0x70B9, 0x5BA1, 0x67E5,
      0x3002]"

definition generate_summary :: "pydict list \<Rightarrow> exn + pystr" where
  "generate_summary analysis =
     (case traverse score_of analysis of
        Inl e \<Rightarrow> Inl e
      | Inr scores \<Rightarrow>
          (let high_risk_count = length (filter (\<lambda>s. s < 60) scores) in
           Inr (if high_risk_count = 0 then summary_none
                else if high_risk_count \<le> 2 then summary_few
                else summary_many)))"

record report =
  overall_risk_score :: int
  risk_level :: pystr
  total_clauses :: nat
  total_risks_found :: nat
  high_risk_clauses :: nat
  medium_risk_clauses :: nat
  clauses_analysis :: "pydict list"
  summary :: pystr
  llm_enhanced :: bool
  timestamp :: string

text \<open>
  \<open>_generate_report\<close>.  The statements run in the order of the source: the sum of the
  finding counts, the two clause counts, then the floor division by \<open>len(analysis)\<close>,
  which raises for an empty list.
\<close>

definition generate_report :: "bool \<Rightarrow> pydict list \<Rightarrow> exn + report" where
  "generate_report use_llm analysis =
     (case traverse risks_len analysis of
        Inl e \<Rightarrow> Inl e
      | Inr lens \<Rightarrow>
     (case traverse score_of analysis of
        Inl e \<Rightarrow> Inl e
      | Inr scores \<Rightarrow>
          (let total_risks = sum_list lens;
               high = length (filter (\<lambda>s. s < 60) scores);
               medium = length (filter (\<lambda>s. 60 \<le> s \<and> s < 75) scores)
           in if length analysis = 0 then Inl ZeroDivisionError
              else
                (let overall_score = sum_list scores div int (length analysis) in
                 case generate_summary analysis of
                   Inl e \<Rightarrow> Inl e
                 | Inr sentence \<Rightarrow>
                     Inr \<lparr>overall_risk_score = overall_score,
                          risk_level = get_risk_level overall_score,
                          total_clauses = length analysis,
                          total_risks_found = total_risks,
                          high_risk_clauses = high,
                          medium_risk_clauses = medium,
                          clauses_analysis = analysis,
                          summary = sentence,
                          llm_enhanced = use_llm,
                          timestamp = ''2024-01-01 10:00:00''\<rparr>))))"

text \<open>
  \<open>analyze_contract\<close> returns the report, or the dictionary \<open>{'error': ...}\<close> made from
  the exception that its \<open>try\<close> block caught.  \<open>loaded\<close> is the outcome of
  \<open>parser.load_contract(file_path)\<close>, which reads the file.
\<close>

datatype outcome = Error_dict exn | Report report

definition analyze_contract ::
  "bool \<Rightarrow> advisor \<Rightarrow> exn + document list \<Rightarrow> bool \<Rightarrow> outcome" where
  "analyze_contract use_llm llm_advisor loaded use_llm_for_high_risk =
     (case loaded of
        Inl e \<Rightarrow> Error_dict e
      | Inr documents \<Rightarrow>
     (case split_into_clauses documents of
        Inl e \<Rightarrow> Error_dict e
      | Inr cls \<Rightarrow>
          (let analyzed_clauses =
                 map (analyze_clause use_llm llm_advisor use_llm_for_high_risk) cls
           in case generate_report use_llm analyzed_clauses of
                Inl e \<Rightarrow> Error_dict e
              | Inr rep \<Rightarrow> Report rep)))"

text \<open>
  \<open>display_risk_chart\<close> of the web front end counts the clauses of a report once more,
  per tier: the numbers of clauses with a score of at least 80, with a score from 60 up
  to 79, and with a score below 60.
\<close>

definition risk_chart_counts :: "report \<Rightarrow> exn + nat \<times> nat \<times> nat" where
  "risk_chart_counts rep =
     (case traverse score_of (clauses_analysis rep) of
        Inl e \<Rightarrow> Inl e
      | Inr scores \<Rightarrow>
          Inr (length (filter (\<lambda>s. s \<ge> 80) scores),
               length (filter (\<lambda>s. 60 \<le> s \<and> s < 80) scores),
               length (filter (\<lambda>s. s < 60) scores)))"

text \<open>What a caller reads off the returned dictionary\<close>

definition the_report :: "outcome \<Rightarrow> report option" where
  "the_report out = (case out of Error_dict e \<Rightarrow> None | Report rep \<Rightarrow> Some rep)"

definition clause_scores :: "outcome \<Rightarrow> pyval option list" where
  "clause_scores out =
     (case out of
        Error_dict e \<Rightarrow> []
      | Report rep \<Rightarrow> map (\<lambda>c. c ''risk_score'') (clauses_analysis rep))"

section \<open>Concrete inputs\<close>

text \<open>The dictionary that \<open>load_contract\<close> appends for paragraph \<open>i\<close> of the file\<close>

definition paragraph_record :: "pystr \<Rightarrow> nat \<Rightarrow> pystr \<Rightarrow> document" where
  "paragraph_record file_path i text =
     \<lparr>page_content = text,
      metadata = \<lparr>source = file_path, paragraph_id = i, mtype = ''paragraph''\<rparr>\<rparr>"

text \<open>
  The four paragraphs of the end-to-end example: U+7B2C U+4E00 U+6761 \<open>' '\<close> U+4ED8 U+6B3E;
  U+7532 U+65B9 U+5E94 U+652F U+4ED8 U+8FDD U+7EA6 U+91D1 \<open>10%\<close>; U+7B2C U+4E8C U+6761 \<open>' '\<close>
  U+9A8C U+6536; U+6309 U+7167 U+884C U+4E1A U+901A U+7528 U+6807 U+51C6 U+9A8C U+6536.
\<close>

definition example_documents :: "document list" where
  "example_documents =
     [paragraph_record [] 0 [0x7B2C, 0x4E00, 0x6761, 0x20, 0x4ED8, 0x6B3E],
      paragraph_record [] 1 [0x7532, 0x65B9, 0x5E94, 0x652F, 0x4ED8, 0x8FDD, 0x7EA6, 0x91D1, 0x31, 0x30, 0x25],
      paragraph_record [] 2 [0x7B2C, 0x4E8C, 0x6761, 0x20, 0x9A8C, 0x6536],
      paragraph_record [] 3 [0x6309, 0x7167, 0x884C, 0x4E1A, 0x901A, 0x7528, 0x6807, 0x51C6, 0x9A8C, 0x6536]]"

text \<open>A one-paragraph document whose text is the keyword U+4EF7 U+683C, and its clause\<close>

definition price_documents :: "document list" where
  "price_documents = [paragraph_record [] 0 [0x4EF7, 0x683C]]"

definition price_clause :: clause where
  "price_clause =
     \<lparr>page_content = [0x4EF7, 0x683C],
      metadata = \<lparr>source = [], paragraph_id = 0, mtype = ''main_clause'',
                  clause_title = preamble_title, sub_clause_count = 0\<rparr>\<rparr>"

text \<open>An advisor whose every call raises\<close>

definition advisor_down :: advisor where
  "advisor_down content title found = Inl (Exception [])"

text \<open>An advisor that returns the six required fields and nothing else\<close>

definition six_fields :: pydict where
  "six_fields =
     [''risk_analysis'' \<mapsto> VStr [], ''specific_risks'' \<mapsto> VList [],
      ''modification_suggestions'' \<mapsto> VList [], ''legal_basis'' \<mapsto> VStr [],
      ''negotiation_tips'' \<mapsto> VStr [], ''risk_level'' \<mapsto> VStr low_risk]"

definition advisor_plain :: advisor where
  "advisor_plain content title found = Inr six_fields"


text \<open>
  An environment in which the model answers every prompt with the text
  \<^verbatim>\<open>{"risk_analysis": "", "specific_risks": [], "modification_suggestions": [],
  "legal_basis": "", "negotiation_tips": "", "risk_level": "", "risk_score": 100}\<close>,
  which \<open>json.loads\<close> decodes to an object of seven entries
\<close>

definition scoring_reply :: pystr where
  "scoring_reply =
     [0x7B, 0x22, 0x72, 0x69, 0x73, 0x6B, 0x5F, 0x61, 0x6E, 0x61, 0x6C, 0x79, 0x73,
      0x69, 0x73, 0x22, 0x3A, 0x20, 0x22, 0x22, 0x2C, 0x20, 0x22, 0x73, 0x70, 0x65,
      0x63, 0x69, 0x66, 0x69, 0x63, 0x5F, 0x72, 0x69, 0x73, 0x6B, 0x73, 0x22, 0x3A,
      0x20, 0x5B, 0x5D, 0x2C, 0x20, 0x22, 0x6D, 0x6F, 0x64, 0x69, 0x66, 0x69, 0x63,
      0x61, 0x74, 0x69, 0x6F, 0x6E, 0x5F, 0x73, 0x75, 0x67, 0x67, 0x65, 0x73, 0x74,
      0x69, 0x6F, 0x6E, 0x73, 0x22, 0x3A, 0x20, 0x5B, 0x5D, 0x2C, 0x20, 0x22, 0x6C,
      0x65, 0x67, 0x61, 0x6C, 0x5F, 0x62, 0x61, 0x73, 0x69, 0x73, 0x22, 0x3A, 0x20,
      0x22, 0x22, 0x2C, 0x20, 0x22, 0x6E, 0x65, 0x67, 0x6F, 0x74, 0x69, 0x61, 0x74,
      0x69, 0x6F, 0x6E, 0x5F, 0x74, 0x69, 0x70, 0x73, 0x22, 0x3A, 0x20, 0x22, 0x22,
      0x2C, 0x20, 0x22, 0x72, 0x69, 0x73, 0x6B, 0x5F, 0x6C, 0x65, 0x76, 0x65, 0x6C,
      0x22, 0x3A, 0x20, 0x22, 0x22, 0x2C, 0x20, 0x22, 0x72, 0x69, 0x73, 0x6B, 0x5F,
      0x73, 0x63, 0x6F, 0x72, 0x65, 0x22, 0x3A, 0x20, 0x31, 0x30, 0x30, 0x7D]"

definition scoring_object :: pydict where
  "scoring_object =
     [''risk_analysis'' \<mapsto> VStr [], ''specific_risks'' \<mapsto> VList [],
      ''modification_suggestions'' \<mapsto> VList [], ''legal_basis'' \<mapsto> VStr [],
      ''negotiation_tips'' \<mapsto> VStr [], ''risk_level'' \<mapsto> VStr [],
      ''risk_score'' \<mapsto> VInt 100]"

definition env_scoring :: llm_env where
  "env_scoring =
     \<lparr>chain_reply = (\<lambda>content title found. Inr scoring_reply),
      json_object =
        (\<lambda>reply. if reply = scoring_reply then Inr (Some scoring_object) else Inr None),
      extract_from_text = (\<lambda>reply. six_fields),
      set_order = remdups\<rparr>"

text \<open>Two findings, one of each severity\<close>

definition sample_medium :: risk where
  "sample_medium =
     \<lparr>rtype = [], level = Medium, description = [], position = [],
      category = ''financial_risk''\<rparr>"

definition sample_high :: risk where
  "sample_high =
     \<lparr>rtype = [], level = High, description = [], position = [],
      category = ''financial_risk''\<rparr>"

section \<open>The loop invariant of the segmenter\<close>

text \<open>
  The loop invariant: the bodies already emitted, followed by the lines of the two
  accumulators, are the paragraph texts read so far, up to the grouping into lines; and
  the accumulators are empty only before the first paragraph.
\<close>

definition pending_lines :: "seg_state \<Rightarrow> pystr list" where
  "pending_lines st =
     map page_content (clauses st) @ current_main_clause st @ current_sub_clauses st"

definition seg_inv :: "document list \<Rightarrow> seg_state \<Rightarrow> bool" where
  "seg_inv docs st \<longleftrightarrow>
     (docs = [] \<longrightarrow> clauses st = []) \<and>
     ((current_main_clause st = [] \<and> current_sub_clauses st = []) = (docs = [])) \<and>
     str_join [NL] (pending_lines st) = str_join [NL] (map page_content docs)"

section \<open>The matcher decides the words of a pattern\<close>

lemma nullable_lang: "nullable r \<longleftrightarrow> [] \<in> lang r"
  by (induction r) (auto simp: lang_conc_def intro: lang_star.empty_word)

lemma conc_Cons:
  "c # w \<in> lang_conc A B \<longleftrightarrow>
     ([] \<in> A \<and> c # w \<in> B) \<or> (\<exists>u v. w = u @ v \<and> c # u \<in> A \<and> v \<in> B)"
  by (auto simp: lang_conc_def Cons_eq_append_conv)

lemma star_Cons_split:
  assumes "x \<in> lang_star A" and "x = c # w"
  shows "\<exists>u v. w = u @ v \<and> c # u \<in> A \<and> v \<in> lang_star A"
  using assms
proof (induction arbitrary: w)
  case empty_word
  then show ?case by simp
next
  case (one_more u v)
  show ?case
  proof (cases u)
    case Nil
    with one_more show ?thesis by simp
  next
    case (Cons a u')
    with one_more.prems have "a = c" and "w = u' @ v" by simp_all
    with one_more.hyps Cons show ?thesis by blast
  qed
qed

lemma star_Cons:
  "c # w \<in> lang_star A \<longleftrightarrow> (\<exists>u v. w = u @ v \<and> c # u \<in> A \<and> v \<in> lang_star A)"
proof
  assume "c # w \<in> lang_star A"
  then show "\<exists>u v. w = u @ v \<and> c # u \<in> A \<and> v \<in> lang_star A"
    by (rule star_Cons_split) simp
next
  assume "\<exists>u v. w = u @ v \<and> c # u \<in> A \<and> v \<in> lang_star A"
  then obtain u v where "w = u @ v" "c # u \<in> A" "v \<in> lang_star A" by blast
  then show "c # w \<in> lang_star A"
    using lang_star.one_more [of "c # u" A v] by simp
qed

lemma deriv_lang: "w \<in> lang (deriv c r) \<longleftrightarrow> c # w \<in> lang r"
proof (induction r arbitrary: w)
  case (Cat r s)
  have "w \<in> lang (deriv c (Cat r s)) \<longleftrightarrow>
          (nullable r \<and> c # w \<in> lang s) \<or>
          (\<exists>u v. w = u @ v \<and> c # u \<in> lang r \<and> v \<in> lang s)"
    using Cat by (auto simp: lang_conc_def)
  also have "\<dots> \<longleftrightarrow> c # w \<in> lang (Cat r s)"
    by (simp add: conc_Cons nullable_lang)
  finally show ?case .
next
  case (Star r)
  have "w \<in> lang (deriv c (Star r)) \<longleftrightarrow>
          (\<exists>u v. w = u @ v \<and> c # u \<in> lang r \<and> v \<in> lang_star (lang r))"
    using Star by (auto simp: lang_conc_def)
  also have "\<dots> \<longleftrightarrow> c # w \<in> lang (Star r)"
    by (simp add: star_Cons)
  finally show ?case .
next
  case (Plus r)
  have "w \<in> lang (deriv c (Plus r)) \<longleftrightarrow>
          (\<exists>u v. w = u @ v \<and> c # u \<in> lang r \<and> v \<in> lang_star (lang r))"
    using Plus by (auto simp: lang_conc_def)
  also have "\<dots> \<longleftrightarrow> c # w \<in> lang (Plus r)"
    by (auto simp: conc_Cons star_Cons)
  finally show ?case .
qed auto

text \<open>
  \<open>re_fullmatch\<close> holds for the words of the pattern, \<open>re_match\<close> when a prefix of the
  string is such a word, and \<open>re_search\<close> when a substring is.
\<close>

lemma re_fullmatch_lang: "re_fullmatch r w \<longleftrightarrow> w \<in> lang r"
  by (induction w arbitrary: r) (simp_all add: nullable_lang deriv_lang)

lemma re_match_lang: "re_match r s \<longleftrightarrow> (\<exists>p q. s = p @ q \<and> p \<in> lang r)"
proof (induction s arbitrary: r)
  case Nil
  show ?case by (simp add: nullable_lang)
next
  case (Cons c cs)
  show ?case
    by (auto simp: Cons nullable_lang deriv_lang Cons_eq_append_conv)
qed

lemma re_search_lang: "re_search r s \<longleftrightarrow> (\<exists>a p q. s = a @ p @ q \<and> p \<in> lang r)"
proof (induction s)
  case Nil
  show ?case by (simp add: nullable_lang)
next
  case (Cons c cs)
  show ?case
    by (auto simp: Cons re_match_lang Cons_eq_append_conv) (metis append_Nil)+
qed

section \<open>Properties of the clause segmenter\<close>

lemma str_join_Cons:
  "str_join sep (x # xs) = (if xs = [] then x else x @ sep @ str_join sep xs)"
  by (cases xs) auto

lemma str_join_append:
  "str_join sep (xs @ ys) =
     (if xs = [] then str_join sep ys else if ys = [] then str_join sep xs
      else str_join sep xs @ sep @ str_join sep ys)"
  by (induction xs) (auto simp: str_join_Cons)

text \<open>Joining a block of lines first and the rest afterwards gives the same text.\<close>

lemma str_join_inner:
  "ys \<noteq> [] \<Longrightarrow> str_join sep (xs @ str_join sep ys # zs) = str_join sep (xs @ ys @ zs)"
  by (simp add: str_join_append str_join_Cons)

lemma str_join_snoc_cong:
  assumes "str_join sep xs = str_join sep ys" and "xs = [] \<longleftrightarrow> ys = []"
  shows "str_join sep (xs @ [t]) = str_join sep (ys @ [t])"
  using assms by (simp add: str_join_append)

lemma seg_inv_init: "seg_inv [] seg_init"
  by (simp add: seg_inv_def seg_init_def pending_lines_def)

lemma flush_content:
  "page_content (flush_clause st md) =
     str_join [NL] (current_main_clause st @ current_sub_clauses st)"
  by (simp add: flush_clause_def combine_clause_content_def)

lemma seg_inv_step:
  assumes "seg_inv docs st"
  shows "seg_inv (docs @ [d]) (seg_step st d)"
proof -
  let ?t = "page_content d"
  from assms
  have e: "(current_main_clause st = [] \<and> current_sub_clauses st = []) = (docs = [])"
    and c: "docs = [] \<longrightarrow> clauses st = []"
    and j: "str_join [NL] (pending_lines st) = str_join [NL] (map page_content docs)"
    by (simp_all add: seg_inv_def)
  have se: "pending_lines st = [] \<longleftrightarrow> map page_content docs = []"
    using e c by (auto simp: pending_lines_def)
  have goal:
    "str_join [NL] (pending_lines st @ [?t]) = str_join [NL] (map page_content (docs @ [d]))"
    using str_join_snoc_cong [OF j se] by simp
  consider (main) "is_main_clause ?t"
    | (sub) "\<not> is_main_clause ?t" "is_sub_clause ?t"
    | (prose_sub) "\<not> is_main_clause ?t" "\<not> is_sub_clause ?t" "current_sub_clauses st \<noteq> []"
    | (prose_main) "\<not> is_main_clause ?t" "\<not> is_sub_clause ?t" "current_sub_clauses st = []"
    by blast
  then show ?thesis
  proof cases
    case main
    show ?thesis
    proof (cases "current_main_clause st \<noteq> [] \<or> current_sub_clauses st \<noteq> []")
      case True
      then have ne: "current_main_clause st @ current_sub_clauses st \<noteq> []" by simp
      have "pending_lines (seg_step st d) =
              map page_content (clauses st) @
              str_join [NL] (current_main_clause st @ current_sub_clauses st) # [?t]"
        using main True by (simp add: seg_step_def pending_lines_def Let_def flush_content)
      then have "str_join [NL] (pending_lines (seg_step st d)) =
                 str_join [NL] (pending_lines st @ [?t])"
        using str_join_inner [OF ne, of "[NL]" "map page_content (clauses st)" "[?t]"]
        by (simp add: pending_lines_def)
      with goal main show ?thesis by (simp add: seg_inv_def seg_step_def Let_def)
    next
      case False
      then have "pending_lines (seg_step st d) = pending_lines st @ [?t]"
        using main by (simp add: seg_step_def pending_lines_def Let_def)
      with goal main show ?thesis by (simp add: seg_inv_def seg_step_def Let_def)
    qed
  next
    case sub
    then have "pending_lines (seg_step st d) = pending_lines st @ [?t]"
      by (simp add: seg_step_def pending_lines_def Let_def)
    with goal sub show ?thesis by (simp add: seg_inv_def seg_step_def Let_def)
  next
    case prose_sub
    let ?b = "map page_content (clauses st) @ current_main_clause st @
              butlast (current_sub_clauses st)"
    let ?l = "last (current_sub_clauses st)"
    have sp: "pending_lines st = ?b @ [?l]"
      using prose_sub(3) by (simp add: pending_lines_def)
    have "pending_lines (seg_step st d) = ?b @ [str_join [NL] [?l, ?t]]"
      using prose_sub by (simp add: seg_step_def pending_lines_def Let_def)
    then have "str_join [NL] (pending_lines (seg_step st d)) =
               str_join [NL] (?b @ [?l, ?t] @ [])"
      using str_join_inner [of "[?l, ?t]" "[NL]" ?b "[]"] by simp
    also have "\<dots> = str_join [NL] (pending_lines st @ [?t])"
      by (simp add: sp)
    finally show ?thesis
      using goal prose_sub by (simp add: seg_inv_def seg_step_def Let_def)
  next
    case prose_main
    then have "pending_lines (seg_step st d) = pending_lines st @ [?t]"
      by (simp add: seg_step_def pending_lines_def Let_def)
    with goal prose_main show ?thesis by (simp add: seg_inv_def seg_step_def Let_def)
  qed
qed

lemma seg_inv_foldl: "seg_inv docs (foldl seg_step seg_init docs)"
proof (induction docs rule: rev_induct)
  case Nil
  show ?case by (simp add: seg_inv_init)
next
  case (snoc d docs)
  then show ?case by (simp add: seg_inv_step)
qed

text \<open>
  Claim C6.  For every non-empty sequence of paragraph records the segmenter returns
  (it does not raise) at least one clause record, and the clause bodies joined by line
  feeds are exactly the paragraph texts joined by line feeds, in the original order:
  no text is lost, duplicated or moved.
\<close>

theorem segmentation_keeps_text:
  assumes "documents \<noteq> []"
  shows "\<exists>cs. split_into_clauses documents = Inr cs \<and> 1 \<le> length cs \<and>
           str_join [NL] (map page_content cs) = str_join [NL] (map page_content documents)"
proof -
  let ?st = "foldl seg_step seg_init documents"
  have inv: "seg_inv documents ?st" by (rule seg_inv_foldl)
  with assms have ne: "current_main_clause ?st @ current_sub_clauses ?st \<noteq> []"
    by (auto simp: seg_inv_def)
  from assms obtain d ds where dd: "documents = d # ds" by (cases documents) auto
  let ?cs = "clauses ?st @ [flush_clause ?st (metadata (last documents))]"
  have r: "split_into_clauses documents = Inr ?cs"
    using ne by (simp add: split_into_clauses_def Let_def dd del: foldl_Cons)
  have "str_join [NL] (map page_content ?cs) = str_join [NL] (pending_lines ?st)"
    using str_join_inner [OF ne, of "[NL]" "map page_content (clauses ?st)" "[]"]
    by (simp add: flush_content pending_lines_def)
  also have "\<dots> = str_join [NL] (map page_content documents)"
    using inv by (simp add: seg_inv_def)
  finally show ?thesis using r by simp
qed

theorem segmentation_keeps_text_witness:
  "price_documents \<noteq> [] \<and>
   (\<exists>cs. split_into_clauses price_documents = Inr cs \<and> 1 \<le> length cs \<and>
      str_join [NL] (map page_content cs) = str_join [NL] (map page_content price_documents))"
proof -
  have ne: "price_documents \<noteq> []" by (simp add: price_documents_def)
  from segmentation_keeps_text [OF ne] ne show ?thesis by simp
qed

text \<open>
  Claim C10.  On the empty paragraph sequence the segmenter returns the empty list of
  clauses: the loop does not run, both accumulators stay empty and the final flush,
  which would emit the preamble-titled clause, is skipped.
\<close>

theorem split_into_clauses_empty: "split_into_clauses [] = Inr []"
  by (simp add: split_into_clauses_def seg_init_def)

theorem split_into_clauses_empty_witness:
  "(case split_into_clauses [] of Inl e \<Rightarrow> False | Inr cs \<Rightarrow> length cs = 0)"
  using split_into_clauses_empty by simp

section \<open>Properties of the scorer\<close>

lemma level_counts:
  "length (filter (\<lambda>r. level r = High) rs) + length (filter (\<lambda>r. level r = Medium) rs) = length rs"
proof (induction rs)
  case Nil
  show ?case by simp
next
  case (Cons r rs)
  then show ?case by (cases "level r") simp_all
qed

text \<open>The score in terms of the two counts\<close>

lemma score_empty: "calculate_risk_score [] = 85"
  by (simp add: calculate_risk_score_def)

lemma score_counts:
  assumes "rs \<noteq> []"
  obtains h m where "h = length (filter (\<lambda>r. level r = High) rs)"
    and "m = length (filter (\<lambda>r. level r = Medium) rs)"
    and "h + m = length rs"
    and "calculate_risk_score rs = max 30 (85 - (int h * 20 + int m * 10))"
proof -
  have "calculate_risk_score rs =
          max 30 (85 - (int (length (filter (\<lambda>r. level r = High) rs)) * 20 +
                        int (length (filter (\<lambda>r. level r = Medium) rs)) * 10))"
    using assms unfolding calculate_risk_score_def Let_def by (simp only: if_False)
  with level_counts [of rs] that show thesis by blast
qed

lemma score_bounds: "30 \<le> calculate_risk_score rs \<and> calculate_risk_score rs \<le> 85"
proof (cases "rs = []")
  case True
  then show ?thesis by (simp only: score_empty) simp
next
  case False
  then obtain h m where "calculate_risk_score rs = max 30 (85 - (int h * 20 + int m * 10))"
    by (rule score_counts)
  then show ?thesis by simp
qed

lemma score_nonempty:
  assumes "rs \<noteq> []"
  shows "calculate_risk_score rs \<le> 75"
proof -
  from assms obtain h m where hm: "h + m = length rs"
    and s: "calculate_risk_score rs = max 30 (85 - (int h * 20 + int m * 10))"
    by (rule score_counts)
  from assms have "1 \<le> length rs" by (cases rs) simp_all
  with hm have "1 \<le> h + m" by simp
  then have "10 \<le> int h * 20 + int m * 10" by linarith
  with s show ?thesis by simp
qed

lemma score_insert_high:
  assumes "level r = High"
  shows "calculate_risk_score (xs @ r # ys) \<le> calculate_risk_score (xs @ ys)"
proof (cases "xs @ ys = []")
  case True
  then have "calculate_risk_score (xs @ ys) = 85" by (simp only: score_empty)
  with score_bounds [of "xs @ r # ys"] show ?thesis by simp
next
  case False
  then obtain h m where h: "h = length (filter (\<lambda>r. level r = High) (xs @ ys))"
    and m: "m = length (filter (\<lambda>r. level r = Medium) (xs @ ys))"
    and s: "calculate_risk_score (xs @ ys) = max 30 (85 - (int h * 20 + int m * 10))"
    by (rule score_counts)
  have "xs @ r # ys \<noteq> []" by simp
  then obtain h' m' where h': "h' = length (filter (\<lambda>r. level r = High) (xs @ r # ys))"
    and m': "m' = length (filter (\<lambda>r. level r = Medium) (xs @ r # ys))"
    and s': "calculate_risk_score (xs @ r # ys) = max 30 (85 - (int h' * 20 + int m' * 10))"
    by (rule score_counts)
  from assms h h' have "h' = Suc h" by simp
  moreover from assms m m' have "m' = m" by simp
  ultimately show ?thesis using s s' by simp
qed

text \<open>
  Claim C7.  The score of every list of findings lies between 30 and 100, and a list
  with one more high-severity finding, inserted at any place, never scores higher.
\<close>

theorem score_range_and_monotone:
  "30 \<le> calculate_risk_score rs \<and> calculate_risk_score rs \<le> 100 \<and>
   (level r = High \<longrightarrow> calculate_risk_score (xs @ r # ys) \<le> calculate_risk_score (xs @ ys))"
  using score_bounds [of rs] score_insert_high [of r xs ys] by simp

theorem score_range_and_monotone_witness:
  "level sample_high = High \<and>
   calculate_risk_score ([sample_medium] @ sample_high # []) \<le> calculate_risk_score ([sample_medium] @ []) \<and>
   calculate_risk_score ([sample_medium] @ sample_high # []) = 55"
proof -
  have h: "level sample_high = High" by (simp add: sample_high_def)
  have v: "calculate_risk_score ([sample_medium] @ sample_high # []) = 55"
    by (simp add: calculate_risk_score_def sample_high_def sample_medium_def)
  from score_range_and_monotone [of "[]" sample_high "[sample_medium]" "[]"] h v show ?thesis by simp
qed

lemma not_low: "s < 80 \<Longrightarrow> get_risk_level s \<noteq> low_risk"
  by (simp add: get_risk_level_def low_risk_def medium_risk_def high_risk_def)

text \<open>
  Claim C9.  The score is at most 85 and equals 85 exactly for the empty list of
  findings; a non-empty list scores at most 75 and its tier is not the low one, and so
  does every clause whose basic analysis has a finding.
\<close>

theorem findings_cap_score:
  "calculate_risk_score rs \<le> 85 \<and> (calculate_risk_score rs = 85 \<longleftrightarrow> rs = []) \<and>
   (rs \<noteq> [] \<longrightarrow> calculate_risk_score rs \<le> 75 \<and> get_risk_level (calculate_risk_score rs) \<noteq> low_risk) \<and>
   (risks (basic_risk_analysis clause) \<noteq> [] \<longrightarrow>
      risk_score (basic_risk_analysis clause) \<le> 75 \<and>
      get_risk_level (risk_score (basic_risk_analysis clause)) \<noteq> low_risk)"
proof -
  have a: "calculate_risk_score rs \<le> 85" using score_bounds by simp
  have b: "calculate_risk_score rs = 85 \<longleftrightarrow> rs = []"
  proof
    assume "calculate_risk_score rs = 85"
    then show "rs = []" using score_nonempty [of rs] by (cases "rs = []") simp_all
  next
    assume "rs = []"
    then show "calculate_risk_score rs = 85" by (simp only: score_empty)
  qed
  have c: "calculate_risk_score qs \<le> 75 \<and> get_risk_level (calculate_risk_score qs) \<noteq> low_risk"
    if "qs \<noteq> []" for qs
    using score_nonempty [OF that] not_low [of "calculate_risk_score qs"] by simp
  have d: "risks (basic_risk_analysis clause) \<noteq> [] \<longrightarrow>
      risk_score (basic_risk_analysis clause) \<le> 75 \<and>
      get_risk_level (risk_score (basic_risk_analysis clause)) \<noteq> low_risk"
    using c [of "detect_detailed_risks (page_content clause)"]
    by (simp add: basic_risk_analysis_def Let_def)
  from a b c [of rs] d show ?thesis by blast
qed

theorem findings_cap_score_witness:
  "[sample_medium] \<noteq> [] \<and> calculate_risk_score [sample_medium] = 75 \<and>
   get_risk_level (calculate_risk_score [sample_medium]) = medium_risk \<and>
   get_risk_level (calculate_risk_score [sample_medium]) \<noteq> low_risk"
proof -
  have v: "calculate_risk_score [sample_medium] = 75"
    by (simp add: calculate_risk_score_def sample_medium_def)
  have m: "get_risk_level 75 = medium_risk" by (simp add: get_risk_level_def)
  from findings_cap_score [of "[sample_medium]" price_clause] v m show ?thesis by simp
qed

section \<open>Evaluating the segmenter and the detector on the concrete inputs\<close>

lemma str_of_nat_digit: "n < 10 \<Longrightarrow> str_of_nat n = [0x30 + n]"
  by (simp add: str_of_nat.simps)

lemmas classify_eval =
  is_main_clause_def is_sub_clause_def main_clause_patterns_def sub_clause_patterns_def
  strip_def is_space_def is_decimal_def nd_ranges_def

lemmas detect_eval =
  detect_detailed_risks_def risk_rules_def financial_rule_def delivery_rule_def legal_rule_def
  keyword_risks_def pattern_risks_def find_keyword_position_def keyword_prefix_def
  generic_position_def is_decimal_def nd_ranges_def str_of_nat_digit

text \<open>The keyword U+4EF7 U+683C alone: one medium finding, on line 1\<close>

lemma price_risks:
  "detect_detailed_risks [0x4EF7, 0x683C] =
     [\<lparr>rtype = [0x8D22, 0x52A1, 0x98CE, 0x9669], level = Medium,
       description = [0x53D1, 0x73B0, 0x5173, 0x952E, 0x8BCD, 0x3A, 0x20, 0x4EF7, 0x683C],
       position = [0x7B2C, 0x31, 0x884C], category = ''financial_risk''\<rparr>]"
  by (simp add: detect_eval)

lemma price_split: "split_into_clauses price_documents = Inr [price_clause]"
  by (simp add: split_into_clauses_def price_documents_def paragraph_record_def seg_init_def
      seg_step_def Let_def classify_eval flush_clause_def combine_clause_content_def
      price_clause_def)

text \<open>
  The example document: two headings, each followed by one line of prose, give two
  clauses; each clause carries the metadata of the paragraph that was being read when it
  was flushed.
\<close>

lemma example_split:
  "split_into_clauses example_documents =
     Inr [\<lparr>page_content =
             [0x7B2C, 0x4E00, 0x6761, 0x20, 0x4ED8, 0x6B3E, NL,
              0x7532, 0x65B9, 0x5E94, 0x652F, 0x4ED8, 0x8FDD, 0x7EA6, 0x91D1, 0x31, 0x30, 0x25],
           metadata = \<lparr>source = [], paragraph_id = 2, mtype = ''main_clause'',
                       clause_title = [0x7B2C, 0x4E00, 0x6761, 0x20, 0x4ED8, 0x6B3E],
                       sub_clause_count = 0\<rparr>\<rparr>,
          \<lparr>page_content =
             [0x7B2C, 0x4E8C, 0x6761, 0x20, 0x9A8C, 0x6536, NL,
              0x6309, 0x7167, 0x884C, 0x4E1A, 0x901A, 0x7528, 0x6807, 0x51C6, 0x9A8C, 0x6536],
           metadata = \<lparr>source = [], paragraph_id = 3, mtype = ''main_clause'',
                       clause_title = [0x7B2C, 0x4E8C, 0x6761, 0x20, 0x9A8C, 0x6536],
                       sub_clause_count = 0\<rparr>\<rparr>]"
  by (simp add: split_into_clauses_def example_documents_def paragraph_record_def seg_init_def
      seg_step_def Let_def classify_eval flush_clause_def combine_clause_content_def)

text \<open>
  The first clause holds three financial keywords (U+652F U+4ED8 on line 2, U+4ED8 U+6B3E
  on line 1, U+8FDD U+7EA6 U+91D1 on line 2) and matches the third financial pattern.
\<close>

lemma example_risks_1:
  "detect_detailed_risks
     [0x7B2C, 0x4E00, 0x6761, 0x20, 0x4ED8, 0x6B3E, NL,
      0x7532, 0x65B9, 0x5E94, 0x652F, 0x4ED8, 0x8FDD, 0x7EA6, 0x91D1, 0x31, 0x30, 0x25] =
   [\<lparr>rtype = [0x8D22, 0x52A1, 0x98CE, 0x9669], level = Medium,
     description = [0x53D1, 0x73B0, 0x5173, 0x952E, 0x8BCD, 0x3A, 0x20, 0x652F, 0x4ED8],
     position = [0x7B2C, 0x32, 0x884C], category = ''financial_risk''\<rparr>,
    \<lparr>rtype = [0x8D22, 0x52A1, 0x98CE, 0x9669], level = Medium,
     description = [0x53D1, 0x73B0, 0x5173, 0x952E, 0x8BCD, 0x3A, 0x20, 0x4ED8, 0x6B3E],
     position = [0x7B2C, 0x31, 0x884C], category = ''financial_risk''\<rparr>,
    \<lparr>rtype = [0x8D22, 0x52A1, 0x98CE, 0x9669], level = Medium,
     description = [0x53D1, 0x73B0, 0x5173, 0x952E, 0x8BCD, 0x3A, 0x20, 0x8FDD, 0x7EA6, 0x91D1],
     position = [0x7B2C, 0x32, 0x884C], category = ''financial_risk''\<rparr>,
    \<lparr>rtype = [0x8D22, 0x52A1, 0x98CE, 0x9669], level = High,
     description = [0x8FDD, 0x7EA6, 0x91D1, 0x6BD4, 0x4F8B, 0x9700, 0x786E, 0x8BA4],
     position = [0x6761, 0x6B3E, 0x5185, 0x5BB9], category = ''financial_risk''\<rparr>]"
  by (simp add: detect_eval)

text \<open>
  The second clause holds two delivery keywords (U+9A8C U+6536 on line 1, U+6807 U+51C6 on
  line 2) and matches the first and the third delivery pattern.
\<close>

lemma example_risks_2:
  "detect_detailed_risks
     [0x7B2C, 0x4E8C, 0x6761, 0x20, 0x9A8C, 0x6536, NL,
      0x6309, 0x7167, 0x884C, 0x4E1A, 0x901A, 0x7528, 0x6807, 0x51C6, 0x9A8C, 0x6536] =
   [\<lparr>rtype = [0x4EA4, 0x4ED8, 0x98CE, 0x9669], level = Medium,
     description = [0x53D1, 0x73B0, 0x5173, 0x952E, 0x8BCD, 0x3A, 0x20, 0x9A8C, 0x6536],
     position = [0x7B2C, 0x31, 0x884C], category = ''delivery_risk''\<rparr>,
    \<lparr>rtype = [0x4EA4, 0x4ED8, 0x98CE, 0x9669], level = Medium,
     description = [0x53D1, 0x73B0, 0x5173, 0x952E, 0x8BCD, 0x3A, 0x20, 0x6807, 0x51C6],
     position = [0x7B2C, 0x32, 0x884C], category = ''delivery_risk''\<rparr>,
    \<lparr>rtype = [0x4EA4, 0x4ED8, 0x98CE, 0x9669], level = High,
     description = [0x9A8C, 0x6536, 0x6807, 0x51C6, 0x6A21, 0x7CCA],
     position = [0x6761, 0x6B3E, 0x5185, 0x5BB9], category = ''delivery_risk''\<rparr>,
    \<lparr>rtype = [0x4EA4, 0x4ED8, 0x98CE, 0x9669], level = High,
     description = [0x6807, 0x51C6, 0x5B9A, 0x4E49, 0x4E0D, 0x6E05],
     position = [0x6761, 0x6B3E, 0x5185, 0x5BB9], category = ''delivery_risk''\<rparr>]"
  by (simp add: detect_eval)

section \<open>Properties of clause analysis\<close>

lemma merged_keeps:
  "k \<notin> dom n \<Longrightarrow> (m ++ n) k = m k"
  by (simp add: map_add_def domIff split: option.splits)

text \<open>What the analysis without the advisor stores for a clause\<close>

lemma never_lookup_score:
  "analyze_clause False adv flag c ''risk_score'' =
     Some (VInt (calculate_risk_score (detect_detailed_risks (page_content c))))"
  by (simp add: analyze_clause_def Let_def clause_dict_def basic_dict_def basic_risk_analysis_def)

lemma never_score_of:
  "score_of (analyze_clause False adv flag c) =
     Inr (calculate_risk_score (detect_detailed_risks (page_content c)))"
  by (simp add: score_of_def never_lookup_score)

lemma never_risks_len:
  "risks_len (analyze_clause False adv flag c) =
     Inr (length (detect_detailed_risks (page_content c)))"
  by (simp add: risks_len_def analyze_clause_def Let_def clause_dict_def basic_dict_def
      basic_risk_analysis_def)





text \<open>
  Claim C8, as amended.  When the advisor returns a dictionary that has neither the key
  \<open>risk_score\<close> nor the key \<open>risks\<close>, the analysed clause keeps the score of the
  scorer and the findings of the detector.
\<close>

theorem enrichment_keeps_score:
  assumes "llm_advisor (page_content clause) (clause_title (metadata clause))
             (risks (basic_risk_analysis clause)) = Inr llm_analysis"
    and "''risk_score'' \<notin> dom llm_analysis" and "''risks'' \<notin> dom llm_analysis"
  shows "analyze_clause use_llm llm_advisor use_llm_for_high_risk clause ''risk_score'' =
           Some (VInt (calculate_risk_score (detect_detailed_risks (page_content clause)))) \<and>
         analyze_clause use_llm llm_advisor use_llm_for_high_risk clause ''risks'' =
           Some (VRisks (detect_detailed_risks (page_content clause)))"
proof -
  let ?b = "basic_risk_analysis clause"
  have b1: "basic_dict ?b ''risk_score'' =
              Some (VInt (calculate_risk_score (detect_detailed_risks (page_content clause))))"
    and b2: "basic_dict ?b ''risks'' = Some (VRisks (detect_detailed_risks (page_content clause)))"
    by (simp_all add: basic_dict_def basic_risk_analysis_def Let_def)
  have m1: "(basic_dict ?b ++ llm_analysis) ''risk_score'' = basic_dict ?b ''risk_score''"
    and m2: "(basic_dict ?b ++ llm_analysis) ''risks'' = basic_dict ?b ''risks''"
    using assms(2,3) by (simp_all add: merged_keeps)
  show ?thesis
    using assms(1) b1 b2 m1 m2
    by (simp add: analyze_clause_def Let_def map_add_def split: option.splits)
qed

theorem enrichment_keeps_score_witness:
  "advisor_plain (page_content price_clause) (clause_title (metadata price_clause))
      (risks (basic_risk_analysis price_clause)) = Inr six_fields \<and>
   ''risk_score'' \<notin> dom six_fields \<and> ''risks'' \<notin> dom six_fields \<and>
   analyze_clause True advisor_plain False price_clause ''risk_score'' =
     Some (VInt (calculate_risk_score (detect_detailed_risks (page_content price_clause)))) \<and>
   analyze_clause True advisor_plain False price_clause ''risk_analysis'' = Some (VStr [])"
proof -
  have a: "advisor_plain (page_content price_clause) (clause_title (metadata price_clause))
      (risks (basic_risk_analysis price_clause)) = Inr six_fields"
    by (simp add: advisor_plain_def)
  have d: "''risk_score'' \<notin> dom six_fields" "''risks'' \<notin> dom six_fields"
    by (simp_all add: six_fields_def)
  have e: "analyze_clause True advisor_plain False price_clause ''risk_analysis'' = Some (VStr [])"
    by (simp add: analyze_clause_def Let_def advisor_plain_def six_fields_def)
  from enrichment_keeps_score [where llm_advisor = advisor_plain and clause = price_clause
      and llm_analysis = six_fields and use_llm = True and use_llm_for_high_risk = False, OF a d]
    a d e
  show ?thesis by simp
qed

text \<open>
  Claim C8 as stated fails: the merge \<open>{**basic_analysis, **llm_analysis}\<close> lets every
  key of the advisor's dictionary win.  A reply that decodes to an object with the six
  required fields and \<open>"risk_score": 100\<close> passes the check of the required fields and
  is returned by the advisor as it is; the analysed clause then stores 100, while the
  scorer gives 75 for the same clause.
\<close>

theorem enrichment_overrides_score:
  "analyze_clause True (analyze_clause_with_llm env_scoring) False price_clause ''risk_score'' =
     Some (VInt 100) \<and>
   analyze_clause False (analyze_clause_with_llm env_scoring) False price_clause ''risk_score'' =
     Some (VInt 75) \<and>
   calculate_risk_score (detect_detailed_risks (page_content price_clause)) = 75"
proof -
  have a: "analyze_clause True (analyze_clause_with_llm env_scoring) False price_clause
             ''risk_score'' = Some (VInt 100)"
  proof -
    have s: "strip scoring_reply = scoring_reply"
      by (simp add: strip_def is_space_def scoring_reply_def)
    have p: "parse_llm_response env_scoring scoring_reply = scoring_object"
      by (simp add: parse_llm_response_def s env_scoring_def required_fields_def
          scoring_object_def)
    have c: "analyze_clause_with_llm env_scoring content title found = Inr scoring_object"
      for content title found
      using p by (simp add: analyze_clause_with_llm_def env_scoring_def)
    show ?thesis
      by (simp add: analyze_clause_def Let_def c scoring_object_def)
  qed
  have b: "calculate_risk_score (detect_detailed_risks (page_content price_clause)) = 75"
    by (simp add: price_clause_def price_risks calculate_risk_score_def)
  from a b show ?thesis by (simp add: never_lookup_score)
qed

section \<open>Properties of the report\<close>

text \<open>
  Claim C4.  \<open>_generate_report\<close> on the empty list raises: it divides by
  \<open>len(analysis)\<close>, and the exception of the empty document is Python's
  \<open>ZeroDivisionError\<close>, the code having no exception class of its own for it.  When the
  segmenter yields no clause, \<open>analyze_contract\<close> ends the run with the error dictionary
  made from that exception, and its caller gets no report.
\<close>

theorem generate_report_empty:
  "generate_report use_llm [] = Inl ZeroDivisionError \<and>
   (split_into_clauses documents = Inr [] \<longrightarrow>
      analyze_contract use_llm llm_advisor (Inr documents) use_llm_for_high_risk =
        Error_dict ZeroDivisionError)"
  by (simp add: generate_report_def analyze_contract_def)

theorem generate_report_empty_witness:
  "split_into_clauses [] = Inr [] \<and>
   analyze_contract True advisor_down (Inr []) True = Error_dict ZeroDivisionError"
proof -
  have s: "split_into_clauses [] = Inr []" by (simp add: split_into_clauses_def seg_init_def)
  from generate_report_empty [of True "[]" advisor_down True] s show ?thesis by simp
qed

text \<open>
  The document of one paragraph U+4EF7 U+683C has one clause, of score 75.  The tier of
  75 is the medium one, but the report counts no medium-risk clause, because
  \<open>_generate_report\<close> counts the scores from 60 up to 74 only.
\<close>

lemma price_report:
  "analyze_contract False adv (Inr price_documents) flag =
     Report
       \<lparr>overall_risk_score = 75, risk_level = medium_risk, total_clauses = 1,
        total_risks_found = 1, high_risk_clauses = 0, medium_risk_clauses = 0,
        clauses_analysis = [analyze_clause False adv flag price_clause],
        summary = summary_none, llm_enhanced = False, timestamp = ''2024-01-01 10:00:00''\<rparr>"
proof -
  have c: "page_content price_clause = [0x4EF7, 0x683C]" by (simp add: price_clause_def)
  show ?thesis
    by (simp add: analyze_contract_def price_split generate_report_def generate_summary_def
        never_score_of never_risks_len c price_risks calculate_risk_score_def
        get_risk_level_def Let_def)
qed

text \<open>
  Claim C2 fails on the code at this input: the only clause has a score in [60, 80), so
  the chart of the front end counts one medium-risk clause, and \<open>medium_risk_clauses\<close>
  of the report is 0.
\<close>

theorem medium_count_skips_75:
  "clause_scores (analyze_contract False advisor_down (Inr price_documents) True) =
     [Some (VInt 75)] \<and>
   map_option medium_risk_clauses
     (the_report (analyze_contract False advisor_down (Inr price_documents) True)) = Some 0 \<and>
   map_option risk_chart_counts
     (the_report (analyze_contract False advisor_down (Inr price_documents) True)) =
     Some (Inr (0, 1, 0)) \<and>
   get_risk_level 75 = medium_risk"
  by (simp add: price_report clause_scores_def the_report_def risk_chart_counts_def
      never_lookup_score never_score_of price_clause_def price_risks calculate_risk_score_def
      get_risk_level_def)

text \<open>
  Claim C3 fails on the code at the same input: there is one clause, no clause has a
  score of 80 or more (the first count of the chart), and both \<open>high_risk_clauses\<close> and
  \<open>medium_risk_clauses\<close> of the report are 0, so the three counts add up to 0, not to 1.
\<close>

theorem tier_counts_skip_75:
  "map_option (\<lambda>rep. (high_risk_clauses rep, medium_risk_clauses rep, total_clauses rep))
     (the_report (analyze_contract False advisor_down (Inr price_documents) True)) =
     Some (0, 0, 1) \<and>
   map_option risk_chart_counts
     (the_report (analyze_contract False advisor_down (Inr price_documents) True)) =
     Some (Inr (0, 1, 0))"
  by (simp add: price_report the_report_def risk_chart_counts_def never_score_of
      price_clause_def price_risks calculate_risk_score_def)

section \<open>The end-to-end example\<close>

lemma example_report:
  "analyze_contract False adv (Inr example_documents) flag =
     Report
       \<lparr>overall_risk_score = 32, risk_level = high_risk, total_clauses = 2,
        total_risks_found = 8, high_risk_clauses = 2, medium_risk_clauses = 0,
        clauses_analysis =
          (case split_into_clauses example_documents of
             Inl e \<Rightarrow> [] | Inr cls \<Rightarrow> map (analyze_clause False adv flag) cls),
        summary = summary_few, llm_enhanced = False, timestamp = ''2024-01-01 10:00:00''\<rparr>"
  by (simp add: analyze_contract_def example_split generate_report_def generate_summary_def
      never_score_of never_risks_len example_risks_1 example_risks_2 calculate_risk_score_def
      get_risk_level_def Let_def)

text \<open>
  Claim C1, as amended.  On the four example paragraphs the pipeline without the advisor
  produces exactly 2 clauses with the scores 35 and 30, the overall score 32, the high
  tier and 2 high-risk clauses.
\<close>

theorem example_pipeline:
  "clause_scores (analyze_contract False adv (Inr example_documents) flag) =
     [Some (VInt 35), Some (VInt 30)] \<and>
   map_option total_clauses (the_report (analyze_contract False adv (Inr example_documents) flag)) =
     Some 2 \<and>
   map_option overall_risk_score
     (the_report (analyze_contract False adv (Inr example_documents) flag)) = Some 32 \<and>
   map_option risk_level (the_report (analyze_contract False adv (Inr example_documents) flag)) =
     Some high_risk \<and>
   map_option high_risk_clauses
     (the_report (analyze_contract False adv (Inr example_documents) flag)) = Some 2"
  by (simp add: example_report clause_scores_def the_report_def example_split never_lookup_score
      example_risks_1 example_risks_2 calculate_risk_score_def)

theorem example_pipeline_witness:
  "clause_scores (analyze_contract False advisor_down (Inr example_documents) False) =
     [Some (VInt 35), Some (VInt 30)]"
  using example_pipeline [of advisor_down False] by simp

text \<open>
  Claim C1 as stated fails: the clause scores are not 55 and 45 and the overall score is
  not 50, because every keyword hit counts (three in the first clause, two in the second)
  and the second clause matches two patterns.
\<close>

theorem example_scores_differ:
  "clause_scores (analyze_contract False advisor_down (Inr example_documents) False) \<noteq>
     [Some (VInt 55), Some (VInt 45)] \<and>
   map_option overall_risk_score
     (the_report (analyze_contract False advisor_down (Inr example_documents) False)) \<noteq> Some 50"
  by (simp add: example_report clause_scores_def the_report_def example_split never_lookup_score
      example_risks_1 example_risks_2 calculate_risk_score_def)

end
